theory Spec2Isabelle
  imports Main "HOL-Library.AList"
begin

section \<open>JavaScript values\<close>

text \<open>
  The module \<^verbatim>\<open>src/index.js\<close> is dynamically typed: provider responses are parsed
  JSON, records are plain objects that grow property by property, and guards such as
  \<^verbatim>\<open>if (results[0])\<close> test truthiness. The values that flow through it are modelled by
  one datatype. An object is the list of its own properties in insertion order, each
  name once; an array carries its elements and, separately, the named properties
  assigned to it.
  Numbers are the integers (result counts, trust flow, thresholds), which JavaScript
  represents exactly below \<open>2^53\<close>, and \<open>JNaN\<close>.
\<close>

datatype jsvalue =
    JUndefined
  | JNull
  | JBool bool
  | JNum int
  | JNaN
  | JStr string
  | JObj "(string \<times> jsvalue) list"
  | JArr "jsvalue list" "(string \<times> jsvalue) list"

text \<open>ToBoolean: what \<^verbatim>\<open>if (v)\<close> and \<^verbatim>\<open>v && ...\<close> test.\<close>

fun truthy :: "jsvalue \<Rightarrow> bool" where
  "truthy JUndefined = False"
| "truthy JNull = False"
| "truthy (JBool b) = b"
| "truthy (JNum n) = (n \<noteq> 0)"
| "truthy JNaN = False"
| "truthy (JStr s) = (s \<noteq> [])"
| "truthy (JObj ps) = True"
| "truthy (JArr xs ps) = True"

text \<open>
  Exceptions and callback errors. \<open>RequestError\<close> is the transport error the
  \<^verbatim>\<open>request\<close> library hands to its callback, \<open>Failure\<close> is \<^verbatim>\<open>new Error(message)\<close>,
  \<open>SerpError\<close> an error reported by \<^verbatim>\<open>serp.search\<close>, \<open>DnsError\<close> one reported by
  \<^verbatim>\<open>dns.lookup\<close>; \<open>TypeError\<close> and \<open>SyntaxError\<close> are thrown by the language itself.
\<close>

datatype error =
    RequestError string
  | Failure string
  | SerpError string
  | DnsError string
  | TypeError
  | SyntaxError

text \<open>
  \<open>js_prop v k\<close> is the value of \<^verbatim>\<open>v.k\<close> for a receiver that is neither \<^verbatim>\<open>undefined\<close> nor
  \<^verbatim>\<open>null\<close>, at the property names this module reads (none of them is a built-in
  property of strings, numbers, booleans or arrays). \<open>get_prop\<close> adds the TypeError
  of reading a property of \<^verbatim>\<open>undefined\<close> or \<^verbatim>\<open>null\<close>.
\<close>

fun js_prop :: "jsvalue \<Rightarrow> string \<Rightarrow> jsvalue" where
  "js_prop (JObj ps) k = (case map_of ps k of None \<Rightarrow> JUndefined | Some v \<Rightarrow> v)"
| "js_prop (JArr xs ps) k = (case map_of ps k of None \<Rightarrow> JUndefined | Some v \<Rightarrow> v)"
| "js_prop v k = JUndefined"

definition nullish :: "jsvalue \<Rightarrow> bool" where
  "nullish v = (v = JUndefined \<or> v = JNull)"

definition get_prop :: "jsvalue \<Rightarrow> string \<Rightarrow> error + jsvalue" where
  "get_prop v k = (if nullish v then Inl TypeError else Inr (js_prop v k))"

text \<open>\<^verbatim>\<open>v[0]\<close>: the first element of an array, the first character of a string, the
  property \<^verbatim>\<open>"0"\<close> of an object.\<close>

fun get_index0 :: "jsvalue \<Rightarrow> error + jsvalue" where
  "get_index0 JUndefined = Inl TypeError"
| "get_index0 JNull = Inl TypeError"
| "get_index0 (JArr xs ps) = Inr (case xs of [] \<Rightarrow> JUndefined | x # _ \<Rightarrow> x)"
| "get_index0 (JStr s) = Inr (case s of [] \<Rightarrow> JUndefined | c # _ \<Rightarrow> JStr [c])"
| "get_index0 (JObj ps) = Inr (case map_of ps ''0'' of None \<Rightarrow> JUndefined | Some v \<Rightarrow> v)"
| "get_index0 v = Inr JUndefined"

text \<open>
  \<^verbatim>\<open>v.k = x\<close>. The module is not in strict mode, so an assignment to a property of a
  primitive is silently dropped; on \<^verbatim>\<open>undefined\<close> and \<^verbatim>\<open>null\<close> it throws.
\<close>

fun set_prop :: "jsvalue \<Rightarrow> string \<Rightarrow> jsvalue \<Rightarrow> error + jsvalue" where
  "set_prop JUndefined k x = Inl TypeError"
| "set_prop JNull k x = Inl TypeError"
| "set_prop (JObj ps) k x = Inr (JObj (AList.update k x ps))"
| "set_prop (JArr xs ps) k x = Inr (JArr xs (AList.update k x ps))"
| "set_prop v k x = Inr v"

text \<open>Sequencing of steps that may throw: the first exception ends the computation.\<close>

definition andThen :: "error + 'a \<Rightarrow> ('a \<Rightarrow> error + 'b) \<Rightarrow> error + 'b" where
  "andThen m f = (case m of Inl e \<Rightarrow> Inl e | Inr x \<Rightarrow> f x)"

section \<open>Strings\<close>

text \<open>\<open>contains needle s\<close>: \<^verbatim>\<open>s.indexOf(needle) > -1\<close> on strings.\<close>

fun contains :: "string \<Rightarrow> string \<Rightarrow> bool" where
  "contains needle [] = (needle = [])"
| "contains needle (c # cs) =
     (take (length needle) (c # cs) = needle \<or> contains needle cs)"

text \<open>
  \<^verbatim>\<open>v.indexOf(needle) > -1\<close> for a JSON value \<open>v\<close>: a substring test on a string, a
  membership test (strict equality) on an array; every other receiver has no callable
  \<^verbatim>\<open>indexOf\<close> and the call throws.
\<close>

fun indexOf_found :: "jsvalue \<Rightarrow> string \<Rightarrow> error + bool" where
  "indexOf_found (JStr s) needle = Inr (contains needle s)"
| "indexOf_found (JArr xs ps) needle =
     (if map_of ps ''indexOf'' = None then Inr (JStr needle \<in> set xs) else Inl TypeError)"
| "indexOf_found v needle = Inl TypeError"

text \<open>
  \<^verbatim>\<open>s.split(sep)\<close> with a string separator: the pieces between the occurrences of
  \<open>sep\<close>, found left to right; an empty separator splits into characters.
\<close>

function split_from :: "string \<Rightarrow> string \<Rightarrow> string \<Rightarrow> string list" where
  "split_from sep acc [] = [rev acc]"
| "split_from sep acc (c # cs) =
     (if sep \<noteq> [] \<and> take (length sep) (c # cs) = sep
      then rev acc # split_from sep [] (drop (length sep) (c # cs))
      else split_from sep (c # acc) cs)"
  by pat_completeness auto
termination
  by (relation "measure (\<lambda>(sep, acc, s). length s)") (auto simp: neq_Nil_conv)

definition js_split :: "string \<Rightarrow> string \<Rightarrow> string list" where
  "js_split sep s = (if sep = [] then map (\<lambda>c. [c]) s else split_from sep [] s)"

definition CRLF :: string where
  "CRLF = [CHR 0x0D, CHR 0x0A]"

text \<open>\<^verbatim>\<open>xs[i]\<close> on an array of strings: \<^verbatim>\<open>undefined\<close> out of range.\<close>

definition at :: "string list \<Rightarrow> nat \<Rightarrow> jsvalue" where
  "at xs i = (if i < length xs then JStr (xs ! i) else JUndefined)"

section \<open>Constants and sentinel records\<close>

definition REDEMPTION_PERIOD :: string where
  "REDEMPTION_PERIOD = ''redemptionPeriod''"

definition PENDING_DELETE :: string where
  "PENDING_DELETE = ''pendingDelete''"

definition INVALID_DOMAIN_MESSAGE :: string where
  "INVALID_DOMAIN_MESSAGE = ''Unable to retrieve whois record for''"

definition MISSING_WHOIS_DATA_MESSAGE :: string where
  "MISSING_WHOIS_DATA_MESSAGE = ''MISSING_WHOIS_DATA''"

definition emptyWhoisData :: jsvalue where
  "emptyWhoisData = JObj
     [(''missingData'', JStr ''true''),
      (''isValidDomain'', JStr ''no-data''),
      (''isPendingDelete'', JStr ''no-data''),
      (''isRedemptionPeriod'', JStr ''no-data''),
      (''createdDate'', JStr ''no-data''),
      (''expiresDate'', JStr ''no-data''),
      (''expiredWaitingTime'', JStr ''no-data''),
      (''estimatedDomainAge'', JStr ''no-data'')]"

definition emptySemrush :: jsvalue where
  "emptySemrush = JObj
     [(''rank'', JNum (- 1)),
      (''oganicKeywords'', JNum 0),
      (''organicTraffic'', JNum 0),
      (''organicCost'', JNum 0),
      (''adwordsKeywords'', JNum 0),
      (''adwordsTraffic'', JNum 0),
      (''adwordsCost'', JNum 0)]"

definition convertSemrush :: "string \<Rightarrow> jsvalue" where
  "convertSemrush semrushResponse =
     (let result = js_split CRLF semrushResponse in
      if length result < 2 then emptySemrush
      else
        let response = js_split '';'' (result ! 1) in
        JObj
          [(''rank'', at response 1),
           (''oganicKeywords'', at response 2),
           (''organicTraffic'', at response 3),
           (''organicCost'', at response 4),
           (''adwordsKeywords'', at response 5),
           (''adwordsTraffic'', at response 6),
           (''adwordsCost'', at response 7)])"

section \<open>The outside world\<close>

text \<open>
  Everything the module asks of its collaborators during one check is a field of
  \<open>world\<close>: what \<^verbatim>\<open>dns.lookup\<close> answers for a host name (an error or an address), what
  \<^verbatim>\<open>ping.sys.probe\<close> reports for an address, what the three HTTP providers answer
  (a transport error, or a status code with a body), and what \<^verbatim>\<open>serp.search\<close> reports
  for a query (an error or the number of results). The body of a JSON provider is given
  as the value \<^verbatim>\<open>JSON.parse\<close> returns for it, \<open>None\<close> when \<^verbatim>\<open>JSON.parse\<close> throws.
  Library calls whose results no property below depends on are fields too: the
  comparison \<^verbatim>\<open>v < t\<close> for a left operand that is a string, an object or an array
  (\<open>less_than_ext\<close>), \<^verbatim>\<open>moment(v, moment.ISO_8601).fromNow()\<close>, \<^verbatim>\<open>(v / 365).toFixed(2)\<close>
  and \<^verbatim>\<open>new URI(s).tld()\<close>. Each of them may throw instead of returning a value.
\<close>

datatype 'b http_result = TransportFailure string | HttpResponse int 'b

record world =
  dns_lookup :: "string \<Rightarrow> error + string"
  ping_probe :: "string option \<Rightarrow> bool"
  majestic_http :: "jsvalue option http_result"
  whois_http :: "jsvalue option http_result"
  semrush_http :: "string http_result"
  serp_search :: "string \<Rightarrow> error + int"
  less_than_ext :: "jsvalue \<Rightarrow> int \<Rightarrow> error + bool"
  fromNow :: "jsvalue \<Rightarrow> error + string"
  years_toFixed2 :: "jsvalue \<Rightarrow> error + string"
  uri_tld :: "string \<Rightarrow> error + string"

text \<open>A provider failure: a transport error or a status code other than 200.\<close>

fun failed :: "'b http_result \<Rightarrow> bool" where
  "failed (TransportFailure e) = True"
| "failed (HttpResponse statusCode body) = (statusCode \<noteq> 200)"

text \<open>The calls a check makes to its collaborators, in the order they are issued.\<close>

datatype call =
    DnsLookup string
  | PingProbe "string option"
  | MajesticRequest
  | WhoisRequest
  | SemrushRequest
  | SerpSearch string

text \<open>
  A callback-style function \<^verbatim>\<open>f(..., callback)\<close> is modelled by the calls it issues
  and what it reports: \<open>Inr data\<close> for \<^verbatim>\<open>callback(null, data)\<close>, \<open>Inl e\<close> for
  \<^verbatim>\<open>callback(e)\<close> and for an exception thrown in one of its handlers (which leaves the
  check without a result). \<open>waterfall\<close> is the step of \<^verbatim>\<open>async.waterfall\<close>: the next
  function runs on the data of the previous one, an error skips the rest.
\<close>

type_synonym 'a stage = "call list \<times> (error + 'a)"

definition waterfall :: "'a stage \<Rightarrow> ('a \<Rightarrow> 'b stage) \<Rightarrow> 'b stage" where
  "waterfall m f =
     (case m of
        (cs, Inl e) \<Rightarrow> (cs, Inl e)
      | (cs, Inr x) \<Rightarrow> (case f x of (cs', r) \<Rightarrow> (cs @ cs', r)))"

section \<open>Request and result records\<close>

text \<open>
  The options of a check, as the header comment of the module documents them. An
  absent option is \<open>None\<close> (\<open>False\<close> for the flag). The transport options \<^verbatim>\<open>host\<close> and
  \<^verbatim>\<open>proxyList\<close> are handed to \<^verbatim>\<open>serp.search\<close> unchanged and are left out.
\<close>

record whoisCred =
  user :: "string option"
  password :: "string option"

record options =
  domain :: string
  majecticKey :: "string option"
  whois :: "whoisCred option"
  semrushKey :: "string option"
  semrushDB :: "string option"
  noCheckIfDNSResolve :: bool
  minTrustFlow :: "int option"

text \<open>
  The record threaded through the stages. A property that has not been assigned is
  \<open>None\<close>; \<open>majestic\<close> holds a JSON value taken from the provider as it is and reads
  \<open>JUndefined\<close> while unassigned, as the property does in the source.
\<close>

record generalInfo =
  domain :: string
  withWWW :: bool
  isDNSFound :: bool
  ip :: "string option"
  isAlive :: "bool option"
  majestic :: jsvalue
  whois :: "jsvalue option"
  isAvailable :: "bool option"
  semrush :: "jsvalue option"
  primaryIndex :: "int option"
  googleIndex :: "int option"
  secondaryIndex :: "jsvalue option"
  tld :: "string option"

text \<open>Truthiness of an optional string option: absent and empty are both falsy.\<close>

definition truthy_str :: "string option \<Rightarrow> bool" where
  "truthy_str k = (case k of None \<Rightarrow> False | Some s \<Rightarrow> s \<noteq> [])"

section \<open>Address resolution and liveness\<close>

definition lookup :: "world \<Rightarrow> string \<Rightarrow> bool \<Rightarrow> generalInfo stage" where
  "lookup w name www =
     (let host = (if www then ''www.'' @ name else name);
          data = \<lparr> domain = name, withWWW = www, isDNSFound = False, ip = None,
                   isAlive = None, majestic = JUndefined, whois = None, isAvailable = None,
                   semrush = None, primaryIndex = None, googleIndex = None,
                   secondaryIndex = None, tld = None \<rparr>
      in ([DnsLookup host],
          Inr (case dns_lookup w host of
                 Inl error \<Rightarrow> data\<lparr> isDNSFound := False \<rparr>
               | Inr address \<Rightarrow> data\<lparr> isDNSFound := True, ip := Some address \<rparr>)))"

definition getIp :: "options \<Rightarrow> world \<Rightarrow> generalInfo stage" where
  "getIp opts w =
     waterfall (lookup w (options.domain opts) False)
       (\<lambda>data. if isDNSFound data then ([], Inr data)
              else lookup w (options.domain opts) True)"

definition getPing :: "world \<Rightarrow> generalInfo \<Rightarrow> generalInfo stage" where
  "getPing w dnsInfo =
     (if \<not> isDNSFound dnsInfo then ([], Inr (dnsInfo\<lparr> isAlive := Some False \<rparr>))
      else ([PingProbe (ip dnsInfo)],
            Inr (dnsInfo\<lparr> isAlive := Some (ping_probe w (ip dnsInfo)) \<rparr>)))"

section \<open>Authority (Majestic)\<close>

definition noMajesticKey :: jsvalue where
  "noMajesticKey = JObj [(''TrustFlow'', JNum 0), (''ResultCode'', JStr ''NO-MAJESTIC-KEY'')]"

definition noCheckDnsResolved :: jsvalue where
  "noCheckDnsResolved =
     JObj [(''TrustFlow'', JNum 0), (''ResultCode'', JStr ''N0-CHECK-DNS-RESOLVED'')]"

text \<open>\<^verbatim>\<open>info.DataTables.Results.Data[0]\<close>\<close>

definition firstDataRecord :: "jsvalue \<Rightarrow> error + jsvalue" where
  "firstDataRecord info =
     andThen (get_prop info ''DataTables'') (\<lambda>tables.
     andThen (get_prop tables ''Results'') (\<lambda>results.
     andThen (get_prop results ''Data'') (\<lambda>data.
     get_index0 data)))"

definition getMajesticData :: "generalInfo \<Rightarrow> options \<Rightarrow> world \<Rightarrow> generalInfo stage" where
  "getMajesticData generalInfo opts w =
     (if truthy_str (majecticKey opts) then
        if noCheckIfDNSResolve opts \<and> isDNSFound generalInfo
        then ([], Inr (generalInfo\<lparr> majestic := noCheckDnsResolved \<rparr>))
        else
          ([MajesticRequest],
           case majestic_http w of
             TransportFailure e \<Rightarrow> Inl (RequestError e)
           | HttpResponse statusCode body \<Rightarrow>
               if statusCode = 200 then
                 (case body of
                    None \<Rightarrow> Inl SyntaxError
                  | Some info \<Rightarrow>
                      andThen (firstDataRecord info) (\<lambda>record0.
                      Inr (generalInfo\<lparr> majestic := record0 \<rparr>)))
               else Inl (Failure ''Impossible to get the Majestic data, check your credential''))
      else ([], Inr (generalInfo\<lparr> majestic := noMajesticKey \<rparr>)))"

section \<open>Gating on the trust flow\<close>

text \<open>\<^verbatim>\<open>v < t\<close> for a number \<open>t\<close>: the left operand is converted to a number, and a
  comparison with NaN is false.\<close>

fun less_than :: "world \<Rightarrow> jsvalue \<Rightarrow> int \<Rightarrow> error + bool" where
  "less_than w JUndefined t = Inr False"
| "less_than w JNull t = Inr (0 < t)"
| "less_than w (JBool b) t = Inr ((if b then 1 else 0) < t)"
| "less_than w (JNum n) t = Inr (n < t)"
| "less_than w JNaN t = Inr False"
| "less_than w v t = less_than_ext w v t"

text \<open>\<^verbatim>\<open>options.minTrustFlow && generalInfo.majestic.TrustFlow < options.minTrustFlow\<close>\<close>

definition belowMinTrustFlow :: "generalInfo \<Rightarrow> options \<Rightarrow> world \<Rightarrow> error + bool" where
  "belowMinTrustFlow generalInfo opts w =
     (case minTrustFlow opts of
        None \<Rightarrow> Inr False
      | Some t \<Rightarrow>
          if t = 0 then Inr False
          else andThen (get_prop (majestic generalInfo) ''TrustFlow'') (\<lambda>v. less_than w v t))"

section \<open>Registration (whois)\<close>

text \<open>
  The body of the \<^verbatim>\<open>statusCode === 200\<close> branch of \<open>getWhoisData\<close>, after
  \<^verbatim>\<open>JSON.parse\<close>: the derived properties are assigned to the parsed value one by one.
  A guard \<^verbatim>\<open>a && a.b\<close> reads \<^verbatim>\<open>a.b\<close> only when \<^verbatim>\<open>a\<close> is truthy, where \<open>js_prop\<close> is
  the property read.
\<close>

definition setValidDomain :: "jsvalue \<Rightarrow> error + jsvalue" where
  "setValidDomain info =
     andThen (get_prop info ''ErrorMessage'') (\<lambda>errorMessage.
     andThen (if truthy errorMessage
           then andThen (get_prop errorMessage ''msg'') (\<lambda>msg.
                indexOf_found msg INVALID_DOMAIN_MESSAGE)
           else Inr False) (\<lambda>invalid.
     set_prop info ''isValidDomain'' (JBool (\<not> invalid))))"

definition setMissingData :: "jsvalue \<Rightarrow> error + jsvalue" where
  "setMissingData info =
     andThen (get_prop info ''WhoisRecord'') (\<lambda>whoisRecord.
     set_prop info ''missingData''
       (JBool (truthy whoisRecord \<and> truthy (js_prop whoisRecord ''dataError'')
               \<and> js_prop whoisRecord ''dataError'' = JStr MISSING_WHOIS_DATA_MESSAGE)))"

definition setStatus :: "jsvalue \<Rightarrow> error + jsvalue" where
  "setStatus info =
     andThen (get_prop info ''WhoisRecord'') (\<lambda>whoisRecord.
     let status = js_prop (js_prop whoisRecord ''registryData'') ''status'' in
     if truthy whoisRecord \<and> truthy (js_prop whoisRecord ''registryData'') \<and> truthy status
     then
       andThen (set_prop info ''status'' status) (\<lambda>info1.
       andThen (indexOf_found status PENDING_DELETE) (\<lambda>pending.
       andThen (set_prop info1 ''isPendingDelete'' (JBool pending)) (\<lambda>info2.
       andThen (indexOf_found status REDEMPTION_PERIOD) (\<lambda>redemption.
       set_prop info2 ''isRedemptionPeriod'' (JBool redemption)))))
     else
       andThen (set_prop info ''isPendingDelete'' (JStr ''no-data'')) (\<lambda>info1.
       set_prop info1 ''isRedemptionPeriod'' (JStr ''no-data'')))"

definition setCreatedDate :: "jsvalue \<Rightarrow> error + jsvalue" where
  "setCreatedDate info =
     andThen (get_prop info ''WhoisRecord'') (\<lambda>whoisRecord.
     if truthy whoisRecord \<and> truthy (js_prop whoisRecord ''createdDate'')
     then set_prop info ''createdDate'' (js_prop whoisRecord ''createdDate'')
     else set_prop info ''createdDate'' (JStr ''no-data''))"

definition setExpiresDate :: "world \<Rightarrow> jsvalue \<Rightarrow> error + jsvalue" where
  "setExpiresDate w info =
     andThen (get_prop info ''WhoisRecord'') (\<lambda>whoisRecord.
     if truthy whoisRecord \<and> truthy (js_prop whoisRecord ''expiresDate'')
     then
       andThen (set_prop info ''expiresDate'' (js_prop whoisRecord ''expiresDate'')) (\<lambda>info1.
       andThen (fromNow w (js_prop whoisRecord ''expiresDate'')) (\<lambda>waiting.
       set_prop info1 ''expiredWaitingTime'' (JStr waiting)))
     else
       andThen (set_prop info ''expiresDate'' (JStr ''no-data'')) (\<lambda>info1.
       set_prop info1 ''expiredWaitingTime'' (JStr ''no-data'')))"

definition setDomainAge :: "world \<Rightarrow> jsvalue \<Rightarrow> error + jsvalue" where
  "setDomainAge w info =
     andThen (get_prop info ''WhoisRecord'') (\<lambda>whoisRecord.
     if truthy whoisRecord \<and> truthy (js_prop whoisRecord ''estimatedDomainAge'')
     then
       andThen (years_toFixed2 w (js_prop whoisRecord ''estimatedDomainAge'')) (\<lambda>years.
       set_prop info ''estimatedDomainAge'' (JStr years))
     else set_prop info ''estimatedDomainAge'' (JStr ''no-data''))"

definition whoisInfo :: "world \<Rightarrow> jsvalue \<Rightarrow> error + jsvalue" where
  "whoisInfo w info =
     andThen (setValidDomain info) (\<lambda>info1.
     andThen (setMissingData info1) (\<lambda>info2.
     andThen (setStatus info2) (\<lambda>info3.
     andThen (setCreatedDate info3) (\<lambda>info4.
     andThen (setExpiresDate w info4) (\<lambda>info5.
     setDomainAge w info5)))))"

text \<open>\<^verbatim>\<open>options.whois && options.whois.user && options.whois.password\<close>\<close>

definition whoisCredential :: "options \<Rightarrow> bool" where
  "whoisCredential opts =
     (case options.whois opts of
        None \<Rightarrow> False
      | Some c \<Rightarrow> truthy_str (user c) \<and> truthy_str (password c))"

text \<open>
  The tasks of the parallel group read \<^verbatim>\<open>generalInfo.majestic.TrustFlow\<close> before they
  issue anything; an exception there is thrown out of the task itself. The outer
  \<open>Inl\<close> is that exception, the inner result is what the task reports later.
\<close>

definition getWhoisData :: "generalInfo \<Rightarrow> options \<Rightarrow> world \<Rightarrow> error + jsvalue stage" where
  "getWhoisData generalInfo opts w =
     (if noCheckIfDNSResolve opts \<and> isDNSFound generalInfo
      then Inr ([], Inr emptyWhoisData)
      else
        andThen (belowMinTrustFlow generalInfo opts w) (\<lambda>below.
        if below then Inr ([], Inr emptyWhoisData)
        else if whoisCredential opts then
          Inr ([WhoisRequest],
               case whois_http w of
                 TransportFailure e \<Rightarrow> Inr emptyWhoisData
               | HttpResponse statusCode body \<Rightarrow>
                   if statusCode = 200 then
                     (case body of
                        None \<Rightarrow> Inl SyntaxError
                      | Some info \<Rightarrow> whoisInfo w info)
                   else Inr emptyWhoisData)
        else Inr ([], Inr emptyWhoisData)))"

section \<open>Traffic (Semrush) and index counts\<close>

definition getSemrushData :: "generalInfo \<Rightarrow> options \<Rightarrow> world \<Rightarrow> error + jsvalue stage" where
  "getSemrushData generalInfo opts w =
     (if truthy_str (semrushKey opts) then
        if noCheckIfDNSResolve opts \<and> isDNSFound generalInfo
        then Inr ([], Inr emptySemrush)
        else
          andThen (belowMinTrustFlow generalInfo opts w) (\<lambda>below.
          if below then Inr ([], Inr emptySemrush)
          else
            Inr ([SemrushRequest],
                 case semrush_http w of
                   TransportFailure e \<Rightarrow> Inl (RequestError e)
                 | HttpResponse statusCode body \<Rightarrow>
                     if statusCode = 200 then Inr (convertSemrush body)
                     else Inl (Failure ''Impossible to get the semrush data, check your credential'')))
      else Inr ([], Inr emptySemrush))"

definition indexQuery :: "options \<Rightarrow> bool \<Rightarrow> string" where
  "indexQuery opts fromPrimaryIndex =
     ''site:'' @ options.domain opts @ (if fromPrimaryIndex then '' /&'' else [])"

definition getIndexedPages :: "options \<Rightarrow> bool \<Rightarrow> world \<Rightarrow> int stage" where
  "getIndexedPages opts fromPrimaryIndex w =
     ([SerpSearch (indexQuery opts fromPrimaryIndex)],
      serp_search w (indexQuery opts fromPrimaryIndex))"

section \<open>Merging\<close>

text \<open>\<^verbatim>\<open>new URI("http://" + domain).tld()\<close>; the constructor throws on a string it cannot
  parse, and so does \<open>getTld\<close>.\<close>

definition getTld :: "world \<Rightarrow> string \<Rightarrow> error + string" where
  "getTld w name = uri_tld w (''http://'' @ name)"

text \<open>\<^verbatim>\<open>data.googleIndex - data.primaryIndex\<close>: a number minus \<^verbatim>\<open>undefined\<close> is NaN.\<close>

definition indexDifference :: "int \<Rightarrow> int option \<Rightarrow> jsvalue" where
  "indexDifference google primary =
     (case primary of None \<Rightarrow> JNaN | Some p \<Rightarrow> JNum (google - p))"

text \<open>
  The final callback of \<^verbatim>\<open>async.parallel\<close> in \<open>getOtherMetrics\<close>, when no task reported
  an error, from \<^verbatim>\<open>var data = generalInfo\<close> to the assignment of \<^verbatim>\<open>secondaryIndex\<close>:
  \<open>r0\<close> to \<open>r3\<close> are \<^verbatim>\<open>results[0]\<close> to \<^verbatim>\<open>results[3]\<close>. An index count is a number,
  truthy unless it is 0. The last two statements of the callback, the assignment of
  \<^verbatim>\<open>data.tld\<close> and \<^verbatim>\<open>callback(null, data)\<close>, are in \<open>getOtherMetrics\<close> below.
\<close>

definition mergeResults ::
  "generalInfo \<Rightarrow> jsvalue \<Rightarrow> jsvalue \<Rightarrow> int \<Rightarrow> int \<Rightarrow> generalInfo" where
  "mergeResults generalInfo r0 r1 r2 r3 =
     (let data0 = (if truthy r0 then generalInfo\<lparr> whois := Some r0 \<rparr> else generalInfo);
          data1 =
            (if truthy r0 then
               if isDNSFound data0 then data0\<lparr> isAvailable := Some False \<rparr>
               else
                 (case whois data0 of
                    None \<Rightarrow> data0\<lparr> isAvailable := Some False \<rparr>
                  | Some v \<Rightarrow>
                      if truthy v \<and> truthy (js_prop v ''status'')
                      then data0\<lparr> isAvailable := Some (js_prop v ''status'' = JStr ''AVAILABLE'') \<rparr>
                      else data0\<lparr> isAvailable := Some False \<rparr>)
             else data0);
          data2 = (if truthy r1 then data1\<lparr> semrush := Some r1 \<rparr> else data1);
          data3 = (if r2 \<noteq> 0 then data2\<lparr> primaryIndex := Some r2 \<rparr> else data2);
          data4 =
            (if r3 \<noteq> 0
             then data3\<lparr> googleIndex := Some r3,
                         secondaryIndex := Some (indexDifference r3 (primaryIndex data3)) \<rparr>
             else data3)
      in data4)"

text \<open>
  \<^verbatim>\<open>async.parallel\<close> starts the four tasks in order. An exception thrown while a task
  starts leaves the later tasks unstarted; otherwise all four have issued their calls,
  and the group reports an error as soon as one task does. Which error comes first
  depends on the order of the answers; the model reports the first in task order.
  When all four report a result the final callback merges them and computes the TLD;
  an exception thrown by \<open>getTld\<close> there leaves the check without a result.
\<close>

definition getOtherMetrics :: "generalInfo \<Rightarrow> options \<Rightarrow> world \<Rightarrow> generalInfo stage" where
  "getOtherMetrics generalInfo opts w =
     (case getWhoisData generalInfo opts w of
        Inl e \<Rightarrow> ([], Inl e)
      | Inr (c0, r0) \<Rightarrow>
          (case getSemrushData generalInfo opts w of
             Inl e \<Rightarrow> (c0, Inl e)
           | Inr (c1, r1) \<Rightarrow>
               (case getIndexedPages opts True w of (c2, r2) \<Rightarrow>
               (case getIndexedPages opts False w of (c3, r3) \<Rightarrow>
                  (c0 @ c1 @ c2 @ c3,
                   andThen r0 (\<lambda>v0. andThen r1 (\<lambda>v1. andThen r2 (\<lambda>v2. andThen r3 (\<lambda>v3.
                   andThen (getTld w (options.domain opts)) (\<lambda>t.
                   Inr ((mergeResults generalInfo v0 v1 v2 v3)\<lparr> tld := Some t \<rparr>)))))))))))"

section \<open>The check\<close>

text \<open>The exported function: the calls issued, and what \<^verbatim>\<open>endCallback\<close> receives.\<close>

definition checkDomain :: "options \<Rightarrow> world \<Rightarrow> generalInfo stage" where
  "checkDomain opts w =
     waterfall (getIp opts w) (\<lambda>data.
     waterfall (getPing w data) (\<lambda>data.
     waterfall (getMajesticData data opts w) (\<lambda>data.
     getOtherMetrics data opts w)))"

section \<open>Concrete checks\<close>

text \<open>
  Inputs on which the theorems below are instantiated. In \<open>quietWorld\<close> no name
  resolves, every provider is unreachable and the index is empty; the other worlds
  change one answer each.
\<close>

definition quietWorld :: world where
  "quietWorld =
     \<lparr> dns_lookup = (\<lambda>host. Inl (DnsError ''ENOTFOUND'')),
       ping_probe = (\<lambda>address. False),
       majestic_http = TransportFailure ''ECONNREFUSED'',
       whois_http = TransportFailure ''ECONNREFUSED'',
       semrush_http = TransportFailure ''ECONNREFUSED'',
       serp_search = (\<lambda>query. Inr 0),
       less_than_ext = (\<lambda>v t. Inr False),
       fromNow = (\<lambda>v. Inr ''Invalid date''),
       years_toFixed2 = (\<lambda>v. Inr ''NaN''),
       uri_tld = (\<lambda>s. Inr ''com'') \<rparr>"

definition wwwOnlyWorld :: world where
  "wwwOnlyWorld =
     quietWorld\<lparr> dns_lookup :=
       (\<lambda>host. if host = ''www.example-test123.com'' then Inr ''192.0.2.7''
               else Inl (DnsError ''ENOTFOUND'')) \<rparr>"

definition forbiddenWorld :: world where
  "forbiddenWorld = quietWorld\<lparr> whois_http := HttpResponse 403 None \<rparr>"

text \<open>The authority provider answers 200 with \<^verbatim>\<open>{"DataTables":{"Results":{"Data":[]}}}\<close>.\<close>

definition emptyDataWorld :: world where
  "emptyDataWorld =
     quietWorld\<lparr> majestic_http :=
       HttpResponse 200
         (Some (JObj [(''DataTables'', JObj [(''Results'', JObj [(''Data'', JArr [] [])])])])) \<rparr>"

definition plainOptions :: options where
  "plainOptions =
     \<lparr> options.domain = ''example-test123.com'', majecticKey = None, options.whois = None,
       semrushKey = None, semrushDB = None, noCheckIfDNSResolve = False,
       minTrustFlow = None \<rparr>"

definition keyOptions :: options where
  "keyOptions = plainOptions\<lparr> majecticKey := Some ''secret'' \<rparr>"

definition skipOptions :: options where
  "skipOptions = plainOptions\<lparr> noCheckIfDNSResolve := True \<rparr>"

definition skipKeyOptions :: options where
  "skipKeyOptions = plainOptions\<lparr> majecticKey := Some ''secret'', noCheckIfDNSResolve := True \<rparr>"

definition thresholdOptions :: options where
  "thresholdOptions = plainOptions\<lparr> majecticKey := Some ''secret'', minTrustFlow := Some 10 \<rparr>"

definition whoisOptions :: options where
  "whoisOptions =
     plainOptions\<lparr> options.whois := Some \<lparr> user = Some ''me'', password = Some ''pw'' \<rparr> \<rparr>"

definition semrushOptions :: options where
  "semrushOptions = plainOptions\<lparr> semrushKey := Some ''secret'' \<rparr>"

text \<open>The record \<open>getIp\<close> reports when only the \<^verbatim>\<open>www.\<close> name resolves, and when none does.\<close>

definition resolvedInfo :: generalInfo where
  "resolvedInfo =
     \<lparr> domain = ''example-test123.com'', withWWW = True, isDNSFound = True,
       ip = Some ''192.0.2.7'', isAlive = None, majestic = JUndefined, whois = None,
       isAvailable = None, semrush = None, primaryIndex = None, googleIndex = None,
       secondaryIndex = None, tld = None \<rparr>"

definition unresolvedInfo :: generalInfo where
  "unresolvedInfo =
     \<lparr> domain = ''example-test123.com'', withWWW = True, isDNSFound = False,
       ip = None, isAlive = None, majestic = JUndefined, whois = None,
       isAvailable = None, semrush = None, primaryIndex = None, googleIndex = None,
       secondaryIndex = None, tld = None \<rparr>"

definition lowTrustInfo :: generalInfo where
  "lowTrustInfo =
     unresolvedInfo\<lparr> majestic := JObj [(''ResultCode'', JStr ''OK''), (''TrustFlow'', JNum 3)] \<rparr>"

definition zeroBodyWorld :: world where
  "zeroBodyWorld =
     quietWorld\<lparr> dns_lookup := (\<lambda>host. Inr ''192.0.2.7''),
                 ping_probe := (\<lambda>address. True),
                 whois_http := HttpResponse 200 (Some (JNum 0)) \<rparr>"

definition availableWorld :: world where
  "availableWorld =
     quietWorld\<lparr> whois_http :=
       HttpResponse 200
         (Some (JObj [(''WhoisRecord'',
            JObj [(''registryData'', JObj [(''status'', JStr ''AVAILABLE'')])])])) \<rparr>"

definition zeroPrimaryWorld :: world where
  "zeroPrimaryWorld =
     quietWorld\<lparr> serp_search :=
       (\<lambda>query. if query = ''site:example-test123.com /&'' then Inr 0 else Inr 15) \<rparr>"

definition zeroGoogleWorld :: world where
  "zeroGoogleWorld =
     quietWorld\<lparr> serp_search :=
       (\<lambda>query. if query = ''site:example-test123.com /&'' then Inr 10 else Inr 0) \<rparr>"

definition sampleResponse :: string where
  "sampleResponse =
     ''Domain;Rank;Organic Keywords;Organic Traffic;Organic Cost;Adwords Keywords;Adwords Traffic;Adwords Cost''
     @ CRLF @ ''example.com;5;10;20;30;1;2;3'' @ CRLF"

definition shortResponse :: string where
  "shortResponse = ''Domain;Rank'' @ CRLF @ ''example.com;5''"

section \<open>Notions used in the statements\<close>

text \<open>\<^verbatim>\<open>xs.join(sep)\<close>, the inverse of \<^verbatim>\<open>split\<close>.\<close>

fun js_join :: "string \<Rightarrow> string list \<Rightarrow> string" where
  "js_join sep [] = []"
| "js_join sep [x] = x"
| "js_join sep (x # y # ys) = x @ sep @ js_join sep (y # ys)"

text \<open>\<^verbatim>\<open>typeof v === "number"\<close>\<close>

definition isNumber :: "jsvalue \<Rightarrow> bool" where
  "isNumber v = (case v of JNum n \<Rightarrow> True | JNaN \<Rightarrow> True | _ \<Rightarrow> False)"

fun isPingProbe :: "call \<Rightarrow> bool" where
  "isPingProbe (PingProbe address) = True"
| "isPingProbe c = False"

section \<open>Stage by stage\<close>

lemmas run_defs =
  checkDomain_def getIp_def lookup_def waterfall_def Let_def getPing_def getMajesticData_def
  truthy_str_def noMajesticKey_def noCheckDnsResolved_def firstDataRecord_def get_prop_def
  nullish_def getOtherMetrics_def getWhoisData_def belowMinTrustFlow_def andThen_def
  whoisCredential_def getSemrushData_def getIndexedPages_def indexQuery_def mergeResults_def
  indexDifference_def getTld_def emptyWhoisData_def emptySemrush_def

lemmas whois_defs =
  whoisInfo_def setValidDomain_def setMissingData_def setStatus_def setCreatedDate_def
  setExpiresDate_def setDomainAge_def PENDING_DELETE_def REDEMPTION_PERIOD_def
  INVALID_DOMAIN_MESSAGE_def MISSING_WHOIS_DATA_MESSAGE_def

lemma truthy_not_nullish: "truthy v \<Longrightarrow> \<not> nullish v"
  by (cases v) (auto simp: nullish_def)

lemma andThen_isl:
  "isl (andThen m f) \<longleftrightarrow> (case m of Inl e \<Rightarrow> True | Inr x \<Rightarrow> isl (f x))"
  by (cases m) (auto simp: andThen_def)

lemma fst_waterfall:
  "fst (waterfall m f) = fst m @ (case snd m of Inl e \<Rightarrow> [] | Inr x \<Rightarrow> fst (f x))"
  by (cases m) (auto simp: waterfall_def split: sum.splits prod.splits)

lemma snd_waterfall:
  "snd (waterfall m f) = (case snd m of Inl e \<Rightarrow> Inl e | Inr x \<Rightarrow> snd (f x))"
  by (cases m) (auto simp: waterfall_def split: sum.splits prod.splits)

subsection \<open>Resolution and probing\<close>

lemma lookup_result:
  "\<exists>data. snd (lookup w name www) = Inr data
     \<and> isDNSFound data = (\<not> isl (dns_lookup w (if www then ''www.'' @ name else name)))
     \<and> whois data = None \<and> isAvailable data = None"
  by (auto simp: lookup_def Let_def split: sum.splits)

lemma lookup_calls:
  "fst (lookup w name www) = [DnsLookup (if www then ''www.'' @ name else name)]"
  by (simp add: lookup_def Let_def)

lemma getIp_result:
  "\<exists>data. snd (getIp opts w) = Inr data
     \<and> (\<not> isDNSFound data \<longleftrightarrow>
          isl (dns_lookup w (options.domain opts))
          \<and> isl (dns_lookup w (''www.'' @ options.domain opts)))
     \<and> whois data = None \<and> isAvailable data = None"
  using lookup_result [of w "options.domain opts" False]
    lookup_result [of w "options.domain opts" True]
  by (auto simp: getIp_def snd_waterfall)

lemma getIp_calls:
  "fst (getIp opts w) =
     DnsLookup (options.domain opts) #
       (if isl (dns_lookup w (options.domain opts))
        then [DnsLookup (''www.'' @ options.domain opts)] else [])"
  using lookup_result [of w "options.domain opts" False]
  by (auto simp: getIp_def fst_waterfall lookup_calls)

lemma getPing_result:
  "snd (getPing w dnsInfo) =
     Inr (dnsInfo\<lparr> isAlive := Some (isDNSFound dnsInfo \<and> ping_probe w (ip dnsInfo)) \<rparr>)"
  by (simp add: getPing_def)

lemma getPing_calls:
  "fst (getPing w dnsInfo) = (if isDNSFound dnsInfo then [PingProbe (ip dnsInfo)] else [])"
  by (simp add: getPing_def)

subsection \<open>Authority\<close>

lemma getMajesticData_calls:
  "fst (getMajesticData g opts w) =
     (if truthy_str (majecticKey opts) \<and> \<not> (noCheckIfDNSResolve opts \<and> isDNSFound g)
      then [MajesticRequest] else [])"
  by (simp add: getMajesticData_def)

lemma getMajesticData_failed:
  "truthy_str (majecticKey opts) \<Longrightarrow> \<not> (noCheckIfDNSResolve opts \<and> isDNSFound g) \<Longrightarrow>
   failed (majestic_http w) \<Longrightarrow> isl (snd (getMajesticData g opts w))"
  by (cases "majestic_http w") (auto simp: getMajesticData_def)

lemma getMajesticData_keeps:
  "snd (getMajesticData g opts w) = Inr d \<Longrightarrow> \<exists>m. d = g\<lparr> majestic := m \<rparr>"
  by (auto simp: getMajesticData_def andThen_def
      split: if_splits http_result.splits option.splits sum.splits)

subsection \<open>The parallel group\<close>

lemma getWhoisData_calls:
  "getWhoisData g opts w = Inr (cs, r) \<Longrightarrow> cs = [] \<or> cs = [WhoisRequest]"
  by (auto simp: getWhoisData_def andThen_def split: if_splits sum.splits)

lemma getWhoisData_failed:
  "failed (whois_http w) \<Longrightarrow> getWhoisData g opts w = Inr (cs, r) \<Longrightarrow> r = Inr emptyWhoisData"
  by (cases "whois_http w") (auto simp: getWhoisData_def andThen_def split: if_splits sum.splits)

lemma getWhoisData_failed_no_credential:
  "failed (whois_http w) \<Longrightarrow>
   map_sum id snd (getWhoisData g opts w)
     = map_sum id snd (getWhoisData g (opts\<lparr> options.whois := None \<rparr>) w)"
  by (cases "whois_http w")
     (auto simp: getWhoisData_def andThen_def belowMinTrustFlow_def whoisCredential_def
       split: if_splits sum.splits option.splits)

lemma getSemrushData_calls:
  "getSemrushData g opts w = Inr (cs, r) \<Longrightarrow>
   cs = [] \<and> r = Inr emptySemrush
   \<or> cs = [SemrushRequest] \<and> (failed (semrush_http w) \<longrightarrow> isl r)"
  by (cases "semrush_http w")
     (auto simp: getSemrushData_def andThen_def split: if_splits sum.splits)

lemma getSemrushData_whois_update:
  "getSemrushData g (opts\<lparr> options.whois := c \<rparr>) w = getSemrushData g opts w"
  by (simp add: getSemrushData_def belowMinTrustFlow_def)

lemma getMajesticData_whois_update:
  "getMajesticData g (opts\<lparr> options.whois := c \<rparr>) w = getMajesticData g opts w"
  by (simp add: getMajesticData_def)

lemma getIp_whois_update:
  "getIp (opts\<lparr> options.whois := c \<rparr>) w = getIp opts w"
  by (simp add: getIp_def cong: if_cong)

lemma getOtherMetrics_calls:
  "c \<in> set (fst (getOtherMetrics g opts w)) \<Longrightarrow>
   c = WhoisRequest \<or> c = SemrushRequest \<or> (\<exists>q. c = SerpSearch q)"
  by (auto simp: getOtherMetrics_def getIndexedPages_def
      split: sum.splits prod.splits dest!: getWhoisData_calls getSemrushData_calls)

lemma getOtherMetrics_semrush_failed:
  "SemrushRequest \<in> set (fst (getOtherMetrics g opts w)) \<Longrightarrow> failed (semrush_http w) \<Longrightarrow>
   isl (snd (getOtherMetrics g opts w))"
  by (auto simp: getOtherMetrics_def getIndexedPages_def andThen_isl
      split: sum.splits prod.splits dest!: getWhoisData_calls getSemrushData_calls)

lemma snd_getOtherMetrics:
  "snd (getOtherMetrics g opts w) =
     (case map_sum id snd (getWhoisData g opts w) of
        Inl e \<Rightarrow> Inl e
      | Inr r0 \<Rightarrow>
          (case getSemrushData g opts w of
             Inl e \<Rightarrow> Inl e
           | Inr (c1, r1) \<Rightarrow>
               andThen r0 (\<lambda>v0. andThen r1 (\<lambda>v1.
               andThen (serp_search w (indexQuery opts True)) (\<lambda>v2.
               andThen (serp_search w (indexQuery opts False)) (\<lambda>v3.
               andThen (getTld w (options.domain opts)) (\<lambda>t.
               Inr ((mergeResults g v0 v1 v2 v3)\<lparr> tld := Some t \<rparr>))))))))"
  by (auto simp: getOtherMetrics_def getIndexedPages_def split: sum.splits prod.splits)

lemma getOtherMetrics_whois_failed:
  assumes "failed (whois_http w)"
  shows "snd (getOtherMetrics g (opts\<lparr> options.whois := None \<rparr>) w) = snd (getOtherMetrics g opts w)"
  using getWhoisData_failed_no_credential [OF assms, of g opts]
  by (simp add: snd_getOtherMetrics getSemrushData_whois_update indexQuery_def
      mergeResults_def cong: sum.case_cong prod.case_cong)

lemma getOtherMetrics_merged:
  "snd (getOtherMetrics g opts w) = Inr data \<Longrightarrow>
   \<exists>r0 r1 r2 r3 t. data = (mergeResults g r0 r1 r2 r3)\<lparr> tld := Some t \<rparr>"
  by (auto simp: snd_getOtherMetrics andThen_def split: sum.splits prod.splits) blast

lemma getOtherMetrics_tld_throws:
  "isl (getTld w (options.domain opts)) \<Longrightarrow> isl (snd (getOtherMetrics g opts w))"
  by (auto simp: snd_getOtherMetrics andThen_isl split: sum.splits prod.splits)

lemma mergeResults_registration:
  "whois (mergeResults g r0 r1 r2 r3) = (if truthy r0 then Some r0 else whois g)
   \<and> isAvailable (mergeResults g r0 r1 r2 r3) =
       (if truthy r0
        then Some (\<not> isDNSFound g \<and> js_prop r0 ''status'' = JStr ''AVAILABLE'')
        else isAvailable g)
   \<and> isDNSFound (mergeResults g r0 r1 r2 r3) = isDNSFound g"
  by (auto simp: mergeResults_def Let_def)

subsection \<open>The whole check\<close>

lemma checkDomain_whois_failed:
  assumes "failed (whois_http w)"
  shows "snd (checkDomain (opts\<lparr> options.whois := None \<rparr>) w) = snd (checkDomain opts w)"
  using getOtherMetrics_whois_failed [OF assms]
  by (simp add: checkDomain_def snd_waterfall getMajesticData_whois_update getIp_whois_update
      split: sum.splits)

lemma checkDomain_majestic_failed:
  assumes "MajesticRequest \<in> set (fst (checkDomain opts w))" and "failed (majestic_http w)"
  shows "isl (snd (checkDomain opts w))"
proof -
  obtain d0 where d0: "snd (getIp opts w) = Inr d0"
    using getIp_result [of opts w] by blast
  define d1 where "d1 = d0\<lparr> isAlive := Some (isDNSFound d0 \<and> ping_probe w (ip d0)) \<rparr>"
  have "MajesticRequest \<notin> set (fst (getOtherMetrics g opts w))" for g
    using getOtherMetrics_calls [of MajesticRequest g opts w] by auto
  with assms(1) d0 have "MajesticRequest \<in> set (fst (getMajesticData d1 opts w))"
    by (auto simp: checkDomain_def fst_waterfall snd_waterfall getIp_calls getPing_calls
        getPing_result d1_def split: sum.splits if_splits)
  then have "truthy_str (majecticKey opts)" "\<not> (noCheckIfDNSResolve opts \<and> isDNSFound d1)"
    by (auto simp: getMajesticData_calls split: if_splits)
  then have "isl (snd (getMajesticData d1 opts w))"
    using assms(2) by (rule getMajesticData_failed)
  then show ?thesis
    using d0 by (auto simp: checkDomain_def snd_waterfall getPing_result d1_def split: sum.splits)
qed

lemma checkDomain_semrush_failed:
  assumes "SemrushRequest \<in> set (fst (checkDomain opts w))" and "failed (semrush_http w)"
  shows "isl (snd (checkDomain opts w))"
proof -
  obtain d0 where d0: "snd (getIp opts w) = Inr d0"
    using getIp_result [of opts w] by blast
  define d1 where "d1 = d0\<lparr> isAlive := Some (isDNSFound d0 \<and> ping_probe w (ip d0)) \<rparr>"
  show ?thesis
  proof (cases "snd (getMajesticData d1 opts w)")
    case (Inl e)
    then show ?thesis
      using d0 by (simp add: checkDomain_def snd_waterfall getPing_result d1_def)
  next
    case (Inr d2)
    with assms(1) d0 have "SemrushRequest \<in> set (fst (getOtherMetrics d2 opts w))"
      by (auto simp: checkDomain_def fst_waterfall snd_waterfall getIp_calls getPing_calls
          getPing_result getMajesticData_calls d1_def split: sum.splits if_splits)
    then have "isl (snd (getOtherMetrics d2 opts w))"
      using assms(2) by (rule getOtherMetrics_semrush_failed)
    then show ?thesis
      using d0 Inr by (simp add: checkDomain_def snd_waterfall getPing_result d1_def)
  qed
qed

lemma checkDomain_merged:
  assumes "snd (checkDomain opts w) = Inr data"
  shows "\<exists>g r0 r1 r2 r3 t. data = (mergeResults g r0 r1 r2 r3)\<lparr> tld := Some t \<rparr>
           \<and> whois g = None \<and> isAvailable g = None"
proof -
  obtain d0 where d0: "snd (getIp opts w) = Inr d0" "whois d0 = None" "isAvailable d0 = None"
    using getIp_result [of opts w] by blast
  define d1 where "d1 = d0\<lparr> isAlive := Some (isDNSFound d0 \<and> ping_probe w (ip d0)) \<rparr>"
  from assms d0 obtain d2 where d2: "snd (getMajesticData d1 opts w) = Inr d2"
      "snd (getOtherMetrics d2 opts w) = Inr data"
    by (auto simp: checkDomain_def snd_waterfall getPing_result d1_def split: sum.splits)
  from d2(1) obtain m where "d2 = d1\<lparr> majestic := m \<rparr>"
    using getMajesticData_keeps by blast
  then have "whois d2 = None" "isAvailable d2 = None"
    using d0 by (simp_all add: d1_def)
  then show ?thesis
    using getOtherMetrics_merged [OF d2(2)] by blast
qed

subsection \<open>Splitting strings\<close>

lemma split_from_nonempty: "split_from sep acc s \<noteq> []"
  by (induction sep acc s rule: split_from.induct) auto

lemma js_join_Cons:
  "xs \<noteq> [] \<Longrightarrow> js_join sep (x # xs) = x @ sep @ js_join sep xs"
  by (cases xs) auto

lemma split_from_join:
  "sep \<noteq> [] \<Longrightarrow> js_join sep (split_from sep acc s) = rev acc @ s"
proof (induction sep acc s rule: split_from.induct)
  case (1 sep acc)
  then show ?case by simp
next
  case (2 sep acc c cs)
  show ?case
  proof (cases "take (length sep) (c # cs) = sep")
    case True
    then have "sep @ drop (length sep) (c # cs) = c # cs"
      by (metis append_take_drop_id)
    with 2 True show ?thesis
      by (simp add: js_join_Cons split_from_nonempty del: take_Suc_Cons drop_Suc_Cons)
  next
    case False
    with 2 show ?thesis by simp
  qed
qed

lemma js_split_join: "sep \<noteq> [] \<Longrightarrow> js_join sep (js_split sep s) = s"
  by (simp add: js_split_def split_from_join)

lemma split_from_single:
  "sep \<noteq> [] \<Longrightarrow> length (split_from sep acc s) < 2 \<longleftrightarrow> \<not> contains sep s"
proof (induction sep acc s rule: split_from.induct)
  case (1 sep acc)
  then show ?case by simp
next
  case (2 sep acc c cs)
  show ?case
  proof (cases "take (length sep) (c # cs) = sep")
    case True
    with 2(3) show ?thesis
      using split_from_nonempty [of sep "[]" "drop (length sep) (c # cs)"]
      by (cases "split_from sep [] (drop (length sep) (c # cs))") auto
  next
    case False
    with 2 show ?thesis by simp
  qed
qed

lemma secondaryIndex_nonzero_counts:
  "primaryIndex g = None \<Longrightarrow> r2 \<noteq> 0 \<Longrightarrow> r3 \<noteq> 0 \<Longrightarrow>
   secondaryIndex (mergeResults g r0 r1 r2 r3) = Some (JNum (r3 - r2))"
  by (simp add: mergeResults_def Let_def indexDifference_def)

section \<open>The claims\<close>

subsection \<open>C1: availability\<close>

text \<open>
  Claim C1, as the code has it. For every completed check whose merged result carries
  a registration record, the record is a truthy value and \<open>isAvailable\<close> is false when
  DNS resolved, true when DNS failed and the record's status is \<^verbatim>\<open>"AVAILABLE"\<close>, and
  false when DNS failed and the record has any other status or none. A result without
  a registration record has no \<open>isAvailable\<close> either. The merge stores the value the
  registration stage yielded exactly when that value is truthy (the sentinel and every
  JSON object are; a 200 body that parses to \<^verbatim>\<open>0\<close>, \<^verbatim>\<open>false\<close> or \<^verbatim>\<open>""\<close> is not), and
  otherwise leaves both properties as they were.
\<close>

theorem isAvailable_truth_table:
  "(snd (checkDomain opts w) = Inr data \<longrightarrow>
      (case whois data of
         None \<Rightarrow> isAvailable data = None
       | Some registration \<Rightarrow>
           truthy registration
           \<and> isAvailable data =
               Some (\<not> isDNSFound data \<and> js_prop registration ''status'' = JStr ''AVAILABLE'')))
   \<and> (truthy r0 \<longrightarrow>
        whois (mergeResults g r0 r1 r2 r3) = Some r0
        \<and> isAvailable (mergeResults g r0 r1 r2 r3) =
            Some (\<not> isDNSFound g \<and> js_prop r0 ''status'' = JStr ''AVAILABLE''))
   \<and> (\<not> truthy r0 \<longrightarrow>
        whois (mergeResults g r0 r1 r2 r3) = whois g
        \<and> isAvailable (mergeResults g r0 r1 r2 r3) = isAvailable g)"
proof -
  have "case whois data of
         None \<Rightarrow> isAvailable data = None
       | Some registration \<Rightarrow>
           truthy registration
           \<and> isAvailable data =
               Some (\<not> isDNSFound data \<and> js_prop registration ''status'' = JStr ''AVAILABLE'')"
    if completed: "snd (checkDomain opts w) = Inr data"
  proof -
    obtain g' r0' r1' r2' r3' t' where
      "data = (mergeResults g' r0' r1' r2' r3')\<lparr> tld := Some t' \<rparr>"
      "whois g' = None" "isAvailable g' = None"
      using checkDomain_merged [OF completed] by blast
    then show ?thesis
      using mergeResults_registration [of g' r0' r1' r2' r3'] by simp
  qed
  then show ?thesis
    using mergeResults_registration [of g r0 r1 r2 r3] by simp
qed

text \<open>
  The truth table on runs of the whole check: the name does not resolve and the
  registry status is \<^verbatim>\<open>"AVAILABLE"\<close>; no status was obtained; the name resolves.
\<close>

theorem isAvailable_truth_table_witness:
  "\<not> isl (snd (checkDomain whoisOptions availableWorld))
   \<and> \<not> isDNSFound (projr (snd (checkDomain whoisOptions availableWorld)))
   \<and> js_prop (the (whois (projr (snd (checkDomain whoisOptions availableWorld))))) ''status''
       = JStr ''AVAILABLE''
   \<and> isAvailable (projr (snd (checkDomain whoisOptions availableWorld))) = Some True
   \<and> isAvailable (projr (snd (checkDomain plainOptions quietWorld))) = Some False
   \<and> whois (projr (snd (checkDomain plainOptions quietWorld))) = Some emptyWhoisData
   \<and> isDNSFound (projr (snd (checkDomain whoisOptions
        (availableWorld\<lparr> dns_lookup := (\<lambda>host. Inr ''192.0.2.7'') \<rparr>))))
   \<and> isAvailable (projr (snd (checkDomain whoisOptions
        (availableWorld\<lparr> dns_lookup := (\<lambda>host. Inr ''192.0.2.7'') \<rparr>)))) = Some False"
  using isAvailable_truth_table [of whoisOptions availableWorld
      "projr (snd (checkDomain whoisOptions availableWorld))"
      "JStr ''x''" unresolvedInfo "JNull" 0 0]
    isAvailable_truth_table [of whoisOptions availableWorld
      "projr (snd (checkDomain whoisOptions availableWorld))"
      "JNum 0" unresolvedInfo "JNull" 0 0]
  by (simp add: whoisOptions_def plainOptions_def availableWorld_def quietWorld_def
      run_defs whois_defs)

text \<open>
  C1 as stated fails: the name resolves, the registration provider answers 200 with the
  body \<^verbatim>\<open>0\<close>, the check completes, and the result has no \<open>isAvailable\<close> at all rather
  than \<open>false\<close>.
\<close>

theorem isAvailable_counterexample:
  "\<not> isl (snd (checkDomain whoisOptions zeroBodyWorld))
   \<and> fst (checkDomain whoisOptions zeroBodyWorld) =
       [DnsLookup ''example-test123.com'', PingProbe (Some ''192.0.2.7''), WhoisRequest,
        SerpSearch ''site:example-test123.com /&'', SerpSearch ''site:example-test123.com'']
   \<and> isDNSFound (projr (snd (checkDomain whoisOptions zeroBodyWorld)))
   \<and> whois (projr (snd (checkDomain whoisOptions zeroBodyWorld))) = None
   \<and> isAvailable (projr (snd (checkDomain whoisOptions zeroBodyWorld))) = None
   \<and> isAvailable (projr (snd (checkDomain whoisOptions zeroBodyWorld))) \<noteq> Some False"
  by (simp add: whoisOptions_def plainOptions_def zeroBodyWorld_def quietWorld_def
      run_defs whois_defs)

subsection \<open>C2: the secondary index count\<close>

text \<open>
  Claim C2 at a count of 0. With no result in the primary index and 15 in the full
  index, both calls return a count, yet the merged result has no \<open>primaryIndex\<close> and
  its \<open>secondaryIndex\<close> is NaN, not 15. With 10 results in the primary index and 0 in
  the full index, \<open>googleIndex\<close> and \<open>secondaryIndex\<close> are both left unset.
\<close>

theorem secondaryIndex_zero_count:
  "\<not> isl (snd (checkDomain plainOptions zeroPrimaryWorld))
   \<and> primaryIndex (projr (snd (checkDomain plainOptions zeroPrimaryWorld))) = None
   \<and> googleIndex (projr (snd (checkDomain plainOptions zeroPrimaryWorld))) = Some 15
   \<and> secondaryIndex (projr (snd (checkDomain plainOptions zeroPrimaryWorld))) = Some JNaN
   \<and> \<not> isl (snd (checkDomain plainOptions zeroGoogleWorld))
   \<and> primaryIndex (projr (snd (checkDomain plainOptions zeroGoogleWorld))) = Some 10
   \<and> googleIndex (projr (snd (checkDomain plainOptions zeroGoogleWorld))) = None
   \<and> secondaryIndex (projr (snd (checkDomain plainOptions zeroGoogleWorld))) = None"
  by (simp add: plainOptions_def zeroPrimaryWorld_def zeroGoogleWorld_def quietWorld_def
      run_defs)

subsection \<open>C3: fatal and degraded provider failures\<close>

text \<open>
  Claim C3. A check that issued the authority request and got a transport failure or
  a status other than 200 ends in an error, and so does a check that issued the
  traffic request and got one. A failure of the registration provider is never an
  error of the registration task: the task reports the sentinel record, and the check
  ends exactly as it does when no registration credential is supplied. Address
  resolution and the liveness probe never report an error.
\<close>

theorem provider_failures:
  "(MajesticRequest \<in> set (fst (checkDomain opts w)) \<and> failed (majestic_http w) \<longrightarrow>
      isl (snd (checkDomain opts w)))
   \<and> (SemrushRequest \<in> set (fst (checkDomain opts w)) \<and> failed (semrush_http w) \<longrightarrow>
      isl (snd (checkDomain opts w)))
   \<and> (failed (whois_http w) \<and> getWhoisData g opts w = Inr (cs, r) \<longrightarrow> r = Inr emptyWhoisData)
   \<and> (failed (whois_http w) \<longrightarrow>
      snd (checkDomain opts w) = snd (checkDomain (opts\<lparr> options.whois := None \<rparr>) w))
   \<and> \<not> isl (snd (getIp opts w))
   \<and> \<not> isl (snd (getPing w dnsInfo))"
  using checkDomain_majestic_failed [of opts w] checkDomain_semrush_failed [of opts w]
    getWhoisData_failed [of w g opts cs r] checkDomain_whois_failed [of w opts]
    getIp_result [of opts w]
  by (auto simp: getPing_result)

text \<open>
  Runs with an unreachable authority provider, an unreachable traffic provider, and a
  registration provider that is unreachable or answers 403: the first two checks fail,
  the last completes with the sentinel record.
\<close>

theorem provider_failures_witness:
  "MajesticRequest \<in> set (fst (checkDomain keyOptions quietWorld))
   \<and> failed (majestic_http quietWorld)
   \<and> snd (checkDomain keyOptions quietWorld) = Inl (RequestError ''ECONNREFUSED'')
   \<and> SemrushRequest \<in> set (fst (checkDomain semrushOptions quietWorld))
   \<and> failed (semrush_http quietWorld)
   \<and> isl (snd (checkDomain semrushOptions quietWorld))
   \<and> failed (whois_http quietWorld)
   \<and> getWhoisData unresolvedInfo whoisOptions quietWorld = Inr ([WhoisRequest], Inr emptyWhoisData)
   \<and> failed (whois_http forbiddenWorld)
   \<and> getWhoisData unresolvedInfo whoisOptions forbiddenWorld = Inr ([WhoisRequest], Inr emptyWhoisData)
   \<and> WhoisRequest \<in> set (fst (checkDomain whoisOptions forbiddenWorld))
   \<and> \<not> isl (snd (checkDomain whoisOptions forbiddenWorld))
   \<and> whois (projr (snd (checkDomain whoisOptions forbiddenWorld))) = Some emptyWhoisData"
  using provider_failures [of keyOptions quietWorld unresolvedInfo "[WhoisRequest]"
      "Inr emptyWhoisData" unresolvedInfo]
    provider_failures [of semrushOptions quietWorld unresolvedInfo "[WhoisRequest]"
      "Inr emptyWhoisData" unresolvedInfo]
    provider_failures [of whoisOptions quietWorld unresolvedInfo "[WhoisRequest]"
      "Inr emptyWhoisData" unresolvedInfo]
    provider_failures [of whoisOptions forbiddenWorld unresolvedInfo "[WhoisRequest]"
      "Inr emptyWhoisData" unresolvedInfo]
  by (simp add: keyOptions_def semrushOptions_def whoisOptions_def plainOptions_def
      quietWorld_def forbiddenWorld_def unresolvedInfo_def run_defs)

subsection \<open>C4: gating of the registration fetch\<close>

text \<open>
  Claim C4, as the code has it. The registration fetch is gated by three conditions
  tried in order: (1) \<open>noCheckIfDNSResolve\<close> is set and DNS resolved; (2) a non-zero
  \<open>minTrustFlow\<close> is configured and the fetched trust flow is below it, as a number
  \<open>n < t\<close> is; (3) no registration credential is supplied. Each match issues no
  request and yields the sentinel record, in which \<open>missingData\<close> holds the string
  \<^verbatim>\<open>"true"\<close> and every other field holds \<^verbatim>\<open>"no-data"\<close>.
\<close>

theorem registration_gating:
  "(noCheckIfDNSResolve opts \<and> isDNSFound g \<longrightarrow>
      getWhoisData g opts w = Inr ([], Inr emptyWhoisData))
   \<and> (\<not> (noCheckIfDNSResolve opts \<and> isDNSFound g)
        \<and> minTrustFlow opts = Some t \<and> t \<noteq> 0
        \<and> get_prop (majestic g) ''TrustFlow'' = Inr (JNum n) \<and> n < t \<longrightarrow>
      belowMinTrustFlow g opts w = Inr True)
   \<and> (\<not> (noCheckIfDNSResolve opts \<and> isDNSFound g)
        \<and> belowMinTrustFlow g opts w = Inr True \<longrightarrow>
      getWhoisData g opts w = Inr ([], Inr emptyWhoisData))
   \<and> (\<not> (noCheckIfDNSResolve opts \<and> isDNSFound g)
        \<and> belowMinTrustFlow g opts w = Inr False \<and> \<not> whoisCredential opts \<longrightarrow>
      getWhoisData g opts w = Inr ([], Inr emptyWhoisData))
   \<and> (\<exists>fields. emptyWhoisData = JObj fields
        \<and> map fst fields =
            [''missingData'', ''isValidDomain'', ''isPendingDelete'', ''isRedemptionPeriod'',
             ''createdDate'', ''expiresDate'', ''expiredWaitingTime'', ''estimatedDomainAge'']
        \<and> (\<forall>(k, v) \<in> set fields.
              v = JStr (if k = ''missingData'' then ''true'' else ''no-data'')))"
  by (auto simp: getWhoisData_def belowMinTrustFlow_def andThen_def emptyWhoisData_def)

text \<open>One run per condition: each is the first to match, with a credential supplied
  for the first two.\<close>

theorem registration_gating_witness:
  "getWhoisData resolvedInfo (whoisOptions\<lparr> noCheckIfDNSResolve := True \<rparr>) quietWorld =
     Inr ([], Inr emptyWhoisData)
   \<and> noCheckIfDNSResolve (whoisOptions\<lparr> noCheckIfDNSResolve := True \<rparr>)
   \<and> isDNSFound resolvedInfo
   \<and> getWhoisData lowTrustInfo (whoisOptions\<lparr> minTrustFlow := Some 10 \<rparr>) quietWorld =
     Inr ([], Inr emptyWhoisData)
   \<and> get_prop (majestic lowTrustInfo) ''TrustFlow'' = Inr (JNum 3)
   \<and> belowMinTrustFlow lowTrustInfo (whoisOptions\<lparr> minTrustFlow := Some 10 \<rparr>) quietWorld
       = Inr True
   \<and> whoisCredential whoisOptions
   \<and> getWhoisData lowTrustInfo (plainOptions\<lparr> minTrustFlow := Some 2 \<rparr>) quietWorld =
     Inr ([], Inr emptyWhoisData)
   \<and> belowMinTrustFlow lowTrustInfo (plainOptions\<lparr> minTrustFlow := Some 2 \<rparr>) quietWorld
       = Inr False
   \<and> \<not> whoisCredential plainOptions"
  using registration_gating [of "whoisOptions\<lparr> noCheckIfDNSResolve := True \<rparr>" resolvedInfo quietWorld]
    registration_gating [of "whoisOptions\<lparr> minTrustFlow := Some 10 \<rparr>" lowTrustInfo quietWorld 10 3]
    registration_gating [of "plainOptions\<lparr> minTrustFlow := Some 2 \<rparr>" lowTrustInfo quietWorld]
  by (simp add: whoisOptions_def plainOptions_def resolvedInfo_def lowTrustInfo_def
      unresolvedInfo_def get_prop_def nullish_def whoisCredential_def truthy_str_def
      belowMinTrustFlow_def andThen_def)

text \<open>
  C4 as stated fails: with no registration credential the fetch short-circuits to the
  sentinel record, whose \<open>missingData\<close> field is \<^verbatim>\<open>"true"\<close>, not \<^verbatim>\<open>"no-data"\<close>.
\<close>

theorem registration_sentinel_counterexample:
  "\<not> whoisCredential plainOptions
   \<and> getWhoisData unresolvedInfo plainOptions quietWorld = Inr ([], Inr emptyWhoisData)
   \<and> js_prop emptyWhoisData ''missingData'' = JStr ''true''
   \<and> js_prop emptyWhoisData ''missingData'' \<noteq> JStr ''no-data''"
  by (simp add: plainOptions_def whoisCredential_def getWhoisData_def belowMinTrustFlow_def
      andThen_def emptyWhoisData_def unresolvedInfo_def)

subsection \<open>C5: the authority sentinels\<close>

text \<open>
  Claim C5, as the code has it. With no authority credential configured the authority
  result is exactly \<^verbatim>\<open>{TrustFlow: 0, ResultCode: "NO-MAJESTIC-KEY"}\<close> and no request is
  issued. With a credential configured, \<open>noCheckIfDNSResolve\<close> set and DNS resolved,
  no request is issued and the authority result is an object of exactly the two fields
  \<open>TrustFlow\<close>, which is 0, and \<open>ResultCode\<close>, which is a string.
\<close>

theorem authority_sentinels:
  "(\<not> truthy_str (majecticKey opts) \<longrightarrow>
      getMajesticData g opts w =
        ([], Inr (g\<lparr> majestic :=
           JObj [(''TrustFlow'', JNum 0), (''ResultCode'', JStr ''NO-MAJESTIC-KEY'')] \<rparr>)))
   \<and> (truthy_str (majecticKey opts) \<and> noCheckIfDNSResolve opts \<and> isDNSFound g \<longrightarrow>
      (\<exists>code. getMajesticData g opts w =
        ([], Inr (g\<lparr> majestic :=
           JObj [(''TrustFlow'', JNum 0), (''ResultCode'', JStr code)] \<rparr>))))"
  by (auto simp: getMajesticData_def noMajesticKey_def noCheckDnsResolved_def)

theorem authority_sentinels_witness:
  "\<not> truthy_str (majecticKey plainOptions)
   \<and> getMajesticData unresolvedInfo plainOptions quietWorld =
        ([], Inr (unresolvedInfo\<lparr> majestic :=
           JObj [(''TrustFlow'', JNum 0), (''ResultCode'', JStr ''NO-MAJESTIC-KEY'')] \<rparr>))
   \<and> truthy_str (majecticKey skipKeyOptions) \<and> noCheckIfDNSResolve skipKeyOptions
   \<and> isDNSFound resolvedInfo
   \<and> (\<exists>code. getMajesticData resolvedInfo skipKeyOptions quietWorld =
        ([], Inr (resolvedInfo\<lparr> majestic :=
           JObj [(''TrustFlow'', JNum 0), (''ResultCode'', JStr code)] \<rparr>)))"
  using authority_sentinels [of plainOptions unresolvedInfo quietWorld]
    authority_sentinels [of skipKeyOptions resolvedInfo quietWorld]
  by (simp add: plainOptions_def skipKeyOptions_def truthy_str_def resolvedInfo_def)

text \<open>
  C5 as stated fails: a check with no authority credential completes with the result
  code \<^verbatim>\<open>"NO-MAJESTIC-KEY"\<close>, not \<^verbatim>\<open>"NO-KEY"\<close>; and with no credential, the flag
  set and the name resolved, the result is that same sentinel, not the skip sentinel.
\<close>

theorem authority_sentinel_counterexample:
  "\<not> isl (snd (checkDomain plainOptions quietWorld))
   \<and> majecticKey plainOptions = None
   \<and> majestic (projr (snd (checkDomain plainOptions quietWorld))) =
       JObj [(''TrustFlow'', JNum 0), (''ResultCode'', JStr ''NO-MAJESTIC-KEY'')]
   \<and> js_prop (majestic (projr (snd (checkDomain plainOptions quietWorld)))) ''ResultCode''
       \<noteq> JStr ''NO-KEY''
   \<and> noCheckIfDNSResolve skipOptions \<and> isDNSFound resolvedInfo
   \<and> getMajesticData resolvedInfo skipOptions quietWorld =
       ([], Inr (resolvedInfo\<lparr> majestic :=
          JObj [(''TrustFlow'', JNum 0), (''ResultCode'', JStr ''NO-MAJESTIC-KEY'')] \<rparr>))"
  by (simp add: plainOptions_def skipOptions_def resolvedInfo_def quietWorld_def run_defs)

subsection \<open>C6: parsing the traffic response\<close>

text \<open>
  Claim C6, as the code has it. \<open>convertSemrush\<close> returns a record for every response
  string. A response with fewer than 2 CR-LF-separated lines, that is one in which no
  CR-LF occurs, gives exactly the default record: rank -1, the six other fields 0.
  Otherwise the second line is split on \<^verbatim>\<open>";"\<close> and its positional fields 1 to 7 fill,
  in this order, the rank, the organic keywords, traffic and cost and the adwords
  keywords, traffic and cost fields; each field holds the piece as a string, or
  \<^verbatim>\<open>undefined\<close> when the line has no such piece. Nothing is converted to a number.
  Splitting loses nothing: joining the pieces with the separator gives the string back.
\<close>

theorem convertSemrush_parsing:
  "(length (js_split CRLF s) < 2 \<longrightarrow> convertSemrush s = emptySemrush)
   \<and> (length (js_split CRLF s) < 2 \<longleftrightarrow> \<not> contains CRLF s)
   \<and> (\<exists>keywords.
        emptySemrush =
          JObj [(''rank'', JNum (- 1)), (keywords, JNum 0), (''organicTraffic'', JNum 0),
                (''organicCost'', JNum 0), (''adwordsKeywords'', JNum 0),
                (''adwordsTraffic'', JNum 0), (''adwordsCost'', JNum 0)]
        \<and> (2 \<le> length (js_split CRLF s) \<longrightarrow>
             convertSemrush s =
               JObj (map (\<lambda>(k, i). (k, if i < length (js_split '';'' (js_split CRLF s ! 1))
                                        then JStr (js_split '';'' (js_split CRLF s ! 1) ! i)
                                        else JUndefined))
                      [(''rank'', 1), (keywords, 2), (''organicTraffic'', 3),
                       (''organicCost'', 4), (''adwordsKeywords'', 5), (''adwordsTraffic'', 6),
                       (''adwordsCost'', 7)])))
   \<and> js_join CRLF (js_split CRLF s) = s
   \<and> js_join '';'' (js_split '';'' line) = line"
proof -
  have crlf: "CRLF \<noteq> []" by (simp add: CRLF_def)
  have single: "length (js_split CRLF s) < 2 \<longleftrightarrow> \<not> contains CRLF s"
    using split_from_single [OF crlf, of "[]" s] by (simp add: js_split_def crlf)
  have short: "length (js_split CRLF s) < 2 \<longrightarrow> convertSemrush s = emptySemrush"
    by (simp add: convertSemrush_def Let_def)
  have long: "2 \<le> length (js_split CRLF s) \<longrightarrow>
        convertSemrush s =
          JObj (map (\<lambda>(k, i). (k, if i < length (js_split '';'' (js_split CRLF s ! 1))
                                   then JStr (js_split '';'' (js_split CRLF s ! 1) ! i)
                                   else JUndefined))
                 [(''rank'', 1), (''oganicKeywords'', 2), (''organicTraffic'', 3),
                  (''organicCost'', 4), (''adwordsKeywords'', 5), (''adwordsTraffic'', 6),
                  (''adwordsCost'', 7)])"
    by (simp add: convertSemrush_def Let_def at_def)
  have fields: "\<exists>keywords.
        emptySemrush =
          JObj [(''rank'', JNum (- 1)), (keywords, JNum 0), (''organicTraffic'', JNum 0),
                (''organicCost'', JNum 0), (''adwordsKeywords'', JNum 0),
                (''adwordsTraffic'', JNum 0), (''adwordsCost'', JNum 0)]
        \<and> (2 \<le> length (js_split CRLF s) \<longrightarrow>
             convertSemrush s =
               JObj (map (\<lambda>(k, i). (k, if i < length (js_split '';'' (js_split CRLF s ! 1))
                                        then JStr (js_split '';'' (js_split CRLF s ! 1) ! i)
                                        else JUndefined))
                      [(''rank'', 1), (keywords, 2), (''organicTraffic'', 3),
                       (''organicCost'', 4), (''adwordsKeywords'', 5), (''adwordsTraffic'', 6),
                       (''adwordsCost'', 7)]))"
    using long by (intro exI [of _ "''oganicKeywords''"]) (simp add: emptySemrush_def)
  show ?thesis
    using single short fields js_split_join [OF crlf, of s] js_split_join [of "'';''" line]
    by simp
qed

text \<open>A response of one line, and a response with a header and a data row.\<close>

theorem convertSemrush_parsing_witness:
  "length (js_split CRLF ''Domain;Rank'') < 2
   \<and> convertSemrush ''Domain;Rank'' = emptySemrush
   \<and> 2 \<le> length (js_split CRLF sampleResponse)
   \<and> js_prop (convertSemrush sampleResponse) ''rank'' = JStr ''5''
   \<and> js_prop (convertSemrush sampleResponse) ''adwordsCost'' = JStr ''3''"
  using convertSemrush_parsing [of "''Domain;Rank''" "[]"]
    convertSemrush_parsing [of sampleResponse "[]"]
  by (simp add: sampleResponse_def CRLF_def js_split_def convertSemrush_def at_def)

text \<open>
  C6 as stated fails: on a response with a data row the rank is the string \<^verbatim>\<open>"5"\<close>,
  not a number, and a field the row does not have is \<^verbatim>\<open>undefined\<close>.
\<close>

theorem convertSemrush_counterexample:
  "2 \<le> length (js_split CRLF sampleResponse)
   \<and> js_prop (convertSemrush sampleResponse) ''rank'' = JStr ''5''
   \<and> \<not> isNumber (js_prop (convertSemrush sampleResponse) ''rank'')
   \<and> 2 \<le> length (js_split CRLF shortResponse)
   \<and> js_prop (convertSemrush shortResponse) ''organicTraffic'' = JUndefined"
  by (simp add: sampleResponse_def shortResponse_def CRLF_def convertSemrush_def js_split_def
      at_def isNumber_def Let_def)

subsection \<open>C7: address resolution\<close>

text \<open>
  Claim C7. \<open>getIp\<close> first looks up the bare domain; it looks up the \<^verbatim>\<open>www.\<close> name
  if and only if the bare lookup failed; the record it reports has \<open>isDNSFound\<close> false
  exactly when both lookups failed; and it always reports a record, never an error.
\<close>

theorem getIp_resolution:
  "fst (getIp opts w) =
     DnsLookup (options.domain opts) #
       (if isl (dns_lookup w (options.domain opts))
        then [DnsLookup (''www.'' @ options.domain opts)] else [])
   \<and> (\<exists>data. snd (getIp opts w) = Inr data
        \<and> (\<not> isDNSFound data \<longleftrightarrow>
             isl (dns_lookup w (options.domain opts))
             \<and> isl (dns_lookup w (''www.'' @ options.domain opts))))"
  using getIp_result [of opts w] by (auto simp: getIp_calls)

theorem getIp_resolution_witness:
  "getIp plainOptions wwwOnlyWorld =
     ([DnsLookup ''example-test123.com'', DnsLookup ''www.example-test123.com''],
      Inr resolvedInfo)
   \<and> fst (getIp plainOptions quietWorld) =
     [DnsLookup ''example-test123.com'', DnsLookup ''www.example-test123.com'']
   \<and> \<not> isl (snd (getIp plainOptions quietWorld))
   \<and> \<not> isDNSFound (projr (snd (getIp plainOptions quietWorld)))
   \<and> fst (getIp plainOptions zeroBodyWorld) = [DnsLookup ''example-test123.com'']"
  using getIp_resolution [of plainOptions wwwOnlyWorld]
    getIp_resolution [of plainOptions quietWorld]
  by (auto simp: plainOptions_def wwwOnlyWorld_def quietWorld_def zeroBodyWorld_def
      resolvedInfo_def getIp_def lookup_def waterfall_def Let_def)

subsection \<open>C8: the liveness probe\<close>

text \<open>
  Claim C8. For an unresolved address \<open>getPing\<close> issues no probe and reports
  \<open>isAlive\<close> false; for a resolved one it issues exactly one probe, to the resolved
  address, and reports its outcome; it never reports an error. In a whole check the
  probes issued are that one probe, or none when the name did not resolve.
\<close>

theorem getPing_probe:
  "(\<not> isDNSFound dnsInfo \<longrightarrow>
      getPing w dnsInfo = ([], Inr (dnsInfo\<lparr> isAlive := Some False \<rparr>)))
   \<and> (isDNSFound dnsInfo \<longrightarrow>
      getPing w dnsInfo =
        ([PingProbe (ip dnsInfo)], Inr (dnsInfo\<lparr> isAlive := Some (ping_probe w (ip dnsInfo)) \<rparr>)))
   \<and> \<not> isl (snd (getPing w dnsInfo))
   \<and> filter isPingProbe (fst (checkDomain opts w)) =
       (case snd (getIp opts w) of
          Inl e \<Rightarrow> []
        | Inr data \<Rightarrow> if isDNSFound data then [PingProbe (ip data)] else [])"
proof -
  obtain data where d: "snd (getIp opts w) = Inr data"
    using getIp_result [of opts w] by blast
  have ip_calls: "filter isPingProbe (fst (getIp opts w)) = []"
    by (simp add: getIp_calls)
  have maj_calls: "filter isPingProbe (fst (getMajesticData g opts w)) = []" for g
    by (simp add: getMajesticData_calls)
  have other_calls: "filter isPingProbe (fst (getOtherMetrics g opts w)) = []" for g
    by (auto simp: filter_empty_conv dest!: getOtherMetrics_calls)
  have "filter isPingProbe (fst (checkDomain opts w)) =
      (if isDNSFound data then [PingProbe (ip data)] else [])"
    using d ip_calls maj_calls other_calls
    by (simp add: checkDomain_def fst_waterfall snd_waterfall getPing_result getPing_calls
        split: sum.splits)
  then show ?thesis using d by (simp add: getPing_def)
qed

theorem getPing_probe_witness:
  "isDNSFound resolvedInfo
   \<and> getPing wwwOnlyWorld resolvedInfo =
     ([PingProbe (Some ''192.0.2.7'')], Inr (resolvedInfo\<lparr> isAlive := Some False \<rparr>))
   \<and> \<not> isDNSFound unresolvedInfo
   \<and> getPing quietWorld unresolvedInfo = ([], Inr (unresolvedInfo\<lparr> isAlive := Some False \<rparr>))
   \<and> filter isPingProbe (fst (checkDomain plainOptions wwwOnlyWorld)) =
       [PingProbe (Some ''192.0.2.7'')]"
  using getPing_probe [of resolvedInfo wwwOnlyWorld plainOptions]
    getPing_probe [of unresolvedInfo quietWorld plainOptions]
    getIp_result [of plainOptions wwwOnlyWorld]
  by (auto simp: resolvedInfo_def unresolvedInfo_def wwwOnlyWorld_def quietWorld_def
      plainOptions_def getIp_def lookup_def waterfall_def Let_def)

subsection \<open>C9: the credential check comes first\<close>

text \<open>
  Claim C9. With no authority credential configured \<open>getMajesticData\<close> issues no
  request and reports the no-credential sentinel, whatever \<open>noCheckIfDNSResolve\<close> and
  the resolution say; and an authority result equal to the skip sentinel, or carrying
  the result code \<^verbatim>\<open>"NO-CHECK-DNS-RESOLVED"\<close>, occurs only with a credential configured.
\<close>

theorem credential_precedence:
  "(\<not> truthy_str (majecticKey opts) \<longrightarrow>
      getMajesticData g opts w = ([], Inr (g\<lparr> majestic := noMajesticKey \<rparr>)))
   \<and> (snd (getMajesticData g opts w) = Inr d
        \<and> (majestic d = noCheckDnsResolved
             \<or> js_prop (majestic d) ''ResultCode'' = JStr ''NO-CHECK-DNS-RESOLVED'')
      \<longrightarrow> truthy_str (majecticKey opts))"
  by (auto simp: getMajesticData_def noMajesticKey_def noCheckDnsResolved_def)

text \<open>The flag is set and the name resolved: without a credential the result is the
  no-credential sentinel, with one it is the skip sentinel.\<close>

theorem credential_precedence_witness:
  "\<not> truthy_str (majecticKey skipOptions)
   \<and> noCheckIfDNSResolve skipOptions \<and> isDNSFound resolvedInfo
   \<and> getMajesticData resolvedInfo skipOptions quietWorld =
       ([], Inr (resolvedInfo\<lparr> majestic := noMajesticKey \<rparr>))
   \<and> snd (getMajesticData resolvedInfo skipKeyOptions quietWorld) =
       Inr (resolvedInfo\<lparr> majestic := noCheckDnsResolved \<rparr>)
   \<and> truthy_str (majecticKey skipKeyOptions)"
  using credential_precedence [of skipOptions resolvedInfo quietWorld]
    credential_precedence [of skipKeyOptions resolvedInfo quietWorld
      "resolvedInfo\<lparr> majestic := noCheckDnsResolved \<rparr>"]
  by (simp add: skipOptions_def skipKeyOptions_def plainOptions_def resolvedInfo_def
      truthy_str_def getMajesticData_def)

subsection \<open>C10: the authority value handed to the parallel group\<close>

text \<open>
  What the fetchers do with the authority value. When the authority stage was skipped,
  for want of a credential or by the flag, the record carries a dummy object whose
  trust flow is 0, and the gating check of the fetchers reads it and answers. When the
  value is \<^verbatim>\<open>undefined\<close> or \<^verbatim>\<open>null\<close> and a minimum trust flow is configured, the
  registration fetcher throws a TypeError on reading the trust flow unless the first
  condition has already matched, and so does the traffic fetcher when it has a key.
\<close>

lemma skipped_authority_read:
  "truthy_str (majecticKey opts) \<longrightarrow> noCheckIfDNSResolve opts \<and> isDNSFound g \<Longrightarrow>
   \<exists>d. getMajesticData g opts w = ([], Inr d)
     \<and> get_prop (majestic d) ''TrustFlow'' = Inr (JNum 0)
     \<and> \<not> isl (belowMinTrustFlow d opts w)"
  by (auto simp: getMajesticData_def noMajesticKey_def noCheckDnsResolved_def
      belowMinTrustFlow_def get_prop_def nullish_def andThen_def split: option.splits)

lemma fetchers_throw_when_nullish:
  assumes "nullish (majestic g)" and "\<not> (noCheckIfDNSResolve opts \<and> isDNSFound g)"
    and "minTrustFlow opts = Some t" and "t \<noteq> 0"
  shows "getWhoisData g opts w = Inl TypeError"
    and "truthy_str (semrushKey opts) \<Longrightarrow> getSemrushData g opts w = Inl TypeError"
    and "snd (getOtherMetrics g opts w) = Inl TypeError"
  using assms
  by (auto simp: getWhoisData_def getSemrushData_def getOtherMetrics_def
      belowMinTrustFlow_def get_prop_def andThen_def)

text \<open>
  Claim C10 on a run. The name does not resolve, an authority credential and a minimum
  trust flow of 10 are configured, and the authority provider answers 200 with
  \<^verbatim>\<open>{"DataTables":{"Results":{"Data":[]}}}\<close>. The authority stage issues its request
  and completes without an error, and the record it hands to the parallel group has
  \<open>majestic\<close> undefined. The registration fetcher then throws a TypeError on
  \<^verbatim>\<open>generalInfo.majestic.TrustFlow\<close> before it issues anything, the traffic fetcher does
  the same when it has a key, and the check ends with that exception.
\<close>

theorem authority_undefined_run:
  "snd (waterfall (getIp thresholdOptions emptyDataWorld) (getPing emptyDataWorld)) =
     Inr (unresolvedInfo\<lparr> isAlive := Some False \<rparr>)
   \<and> getMajesticData (unresolvedInfo\<lparr> isAlive := Some False \<rparr>) thresholdOptions emptyDataWorld =
       ([MajesticRequest], Inr (unresolvedInfo\<lparr> isAlive := Some False, majestic := JUndefined \<rparr>))
   \<and> getWhoisData (unresolvedInfo\<lparr> isAlive := Some False, majestic := JUndefined \<rparr>)
        thresholdOptions emptyDataWorld = Inl TypeError
   \<and> getSemrushData (unresolvedInfo\<lparr> isAlive := Some False, majestic := JUndefined \<rparr>)
        (thresholdOptions\<lparr> semrushKey := Some ''secret'' \<rparr>) emptyDataWorld = Inl TypeError
   \<and> checkDomain thresholdOptions emptyDataWorld =
       ([DnsLookup ''example-test123.com'', DnsLookup ''www.example-test123.com'',
         MajesticRequest], Inl TypeError)"
  by (simp add: thresholdOptions_def plainOptions_def emptyDataWorld_def quietWorld_def
      unresolvedInfo_def run_defs)

end
